theory Spec2Isabelle
  imports Main "HOL-Library.Word"
begin

unbundle bit_operations_syntax

section \<open>Values shared by the whole package\<close>

text \<open>
  A run-time panic of the source is the left summand of a result (\<open>panic + 'a\<close>), an
  \<open>error\<close> value that a function returns is an \<open>err option\<close> (\<open>None\<close> is nil), and a
  call that may never return has an option result whose \<open>None\<close> says so.
\<close>

datatype panic = SliceBoundsOutOfRange

text \<open>
  \<open>unix.Rusage\<close> is carried around and never inspected by the operations below; only
  the two time fields that the package reads are kept.
\<close>

record Rusage =
  Utime :: int
  Stime :: int

datatype ProcessState = State (pid: int) (status: "32 word") (rusage: "Rusage option")

text \<open>
  The error values of errors.go and those the package takes from its imports. A value
  that comes from outside the package (a failed \<open>stat\<close>, a context error, an I/O error
  of a copy task, an error of \<open>os/exec\<close>) is \<open>External\<close> with an identifying number.
\<close>

datatype err =
    ErrorsNew string
  | Error string err
  | ErrNotFound
  | ErrDot
  | ErrWaitDelay
  | ErrPermission
  | ErrInvalid
  | Errno int
  | ExitError "ProcessState option" string
  | wrappedError string err
  | External nat

definition wrapError :: "string \<Rightarrow> err option \<Rightarrow> err option" where
  "wrapError pfx e = (case e of None \<Rightarrow> None | Some x \<Rightarrow> Some (wrappedError pfx x))"

section \<open>Bounded output capture (lookpath.go: prefixSuffixSaver)\<close>

text \<open>
  A Go byte slice is a list of characters (a \<open>char\<close> is one byte). The source tests
  \<open>w.suffix == nil\<close>, so a slice that may be nil is an option: \<open>None\<close> is the nil
  slice, \<open>Some []\<close> an empty slice that is not nil. Go's \<open>int\<close> and \<open>int64\<close> are
  modelled by \<open>int\<close>: every value below is a length or a count of bytes written.
\<close>

type_synonym bytes = "string option"

definition len :: "bytes \<Rightarrow> int" where
  "len b = (case b of None \<Rightarrow> 0 | Some xs \<Rightarrow> int (length xs))"

definition content :: "bytes \<Rightarrow> string" where
  "content b = (case b of None \<Rightarrow> [] | Some xs \<Rightarrow> xs)"

text \<open>\<open>append(dst, p...)\<close>: appending nothing returns \<open>dst\<close> itself, nil included.\<close>

definition append_go :: "bytes \<Rightarrow> string \<Rightarrow> bytes" where
  "append_go dst p = (if p = [] then dst else Some (content dst @ p))"

record prefixSuffixSaver =
  N :: int
  prefix :: bytes
  suffix :: bytes
  suffixOff :: int
  skipped :: int

text \<open>The value \<open>&prefixSuffixSaver{N: n}\<close>: every other field is zero.\<close>

definition newSaver :: "int \<Rightarrow> prefixSuffixSaver" where
  "newSaver n = \<lparr>N = n, prefix = None, suffix = None, suffixOff = 0, skipped = 0\<rparr>"

definition min_go :: "int \<Rightarrow> int \<Rightarrow> int" where
  "min_go a b = (if a < b then a else b)"

text \<open>
  \<open>fill\<close> takes the capacity and the destination slice and returns the new
  destination with what remains of \<open>p\<close>.
\<close>

definition fill :: "int \<Rightarrow> bytes \<Rightarrow> string \<Rightarrow> bytes \<times> string" where
  "fill n dst p =
     (let remain = n - len dst in
      if remain > 0 then
        (let add = min_go (int (length p)) remain
         in (append_go dst (take (nat add) p), drop (nat add) p))
      else (dst, p))"

text \<open>
  \<open>copy(w.suffix[w.suffixOff:], p)\<close> overwrites the ring from \<open>suffixOff\<close> on and
  returns the number of bytes copied; the slice expression panics when the offset is
  outside \<open>0 .. len(w.suffix)\<close>.
\<close>

definition copy_at :: "bytes \<Rightarrow> int \<Rightarrow> string \<Rightarrow> bytes \<times> int" where
  "copy_at dst off p =
     (let n = min_go (len dst - off) (int (length p)) in
      (case dst of
         None \<Rightarrow> (None, n)
       | Some s \<Rightarrow> (Some (take (nat off) s @ take (nat n) p @ drop (nat (off + n)) s), n)))"

partial_function (option) ring_loop ::
  "prefixSuffixSaver \<Rightarrow> string \<Rightarrow> (panic + prefixSuffixSaver) option" where
  "ring_loop w p =
     (if length p > 0 then
        (if suffixOff w < 0 \<or> len (suffix w) < suffixOff w then Some (Inl SliceBoundsOutOfRange)
         else
           (let (s', n) = copy_at (suffix w) (suffixOff w) p;
                off' = suffixOff w + n;
                w' = w\<lparr>suffix := s', suffixOff := (if off' = N w then 0 else off')\<rparr>
            in ring_loop w' (drop (nat n) p)))
      else Some (Inr w))"

text \<open>
  \<open>Write\<close> returns the saver after the call together with the two results
  \<open>(n, err)\<close> of the source.
\<close>

definition Write ::
  "prefixSuffixSaver \<Rightarrow> string \<Rightarrow> (panic + prefixSuffixSaver \<times> int \<times> err option) option" where
  "Write w p =
     (let lenp = int (length p);
          (pre', p1) = fill (N w) (prefix w) p;
          overage = int (length p1) - N w
      in if overage > 0 \<and> int (length p1) < overage then Some (Inl SliceBoundsOutOfRange)
         else
           (let p2 = (if overage > 0 then drop (nat overage) p1 else p1);
                sk' = (if overage > 0 then skipped w + overage else skipped w);
                (suf', p3) = fill (N w) (suffix w) p2
            in (case ring_loop (w\<lparr>prefix := pre', suffix := suf', skipped := sk'\<rparr>) p3 of
                  None \<Rightarrow> None
                | Some (Inl e) \<Rightarrow> Some (Inl e)
                | Some (Inr w') \<Rightarrow> Some (Inr (w', lenp, None)))))"

function itoa_loop :: "int \<Rightarrow> string \<Rightarrow> string" where
  "itoa_loop i b = (if i > 0 then itoa_loop (i div 10) (char_of (48 + i mod 10) # b) else b)"
  by pat_completeness auto
termination
  by (relation "measure (\<lambda>(i, b). nat i)") auto

text \<open>
  \<open>itoa\<close> fills a 20-byte array from the right; a 64-bit \<open>int\<close> has at most 19
  digits, so the array index never leaves the array.
\<close>

definition itoa :: "int \<Rightarrow> string" where
  "itoa i = itoa_loop i []"

definition Bytes :: "prefixSuffixSaver \<Rightarrow> panic + string" where
  "Bytes w =
     (if suffix w = None then Inr (content (prefix w))
      else if skipped w = 0 then Inr (content (prefix w) @ content (suffix w))
      else if suffixOff w < 0 \<or> len (suffix w) < suffixOff w then Inl SliceBoundsOutOfRange
      else Inr (content (prefix w) @ [CHR 0x0A] @ ''... omitting '' @ itoa (skipped w)
                @ '' bytes ...'' @ [CHR 0x0A]
                @ drop (nat (suffixOff w)) (content (suffix w))
                @ take (nat (suffixOff w)) (content (suffix w))))"

text \<open>A sequence of writes, one after the other, as an upstream copier performs them.\<close>

fun write_all :: "prefixSuffixSaver \<Rightarrow> string list \<Rightarrow> (panic + prefixSuffixSaver) option" where
  "write_all w [] = Some (Inr w)"
| "write_all w (p # ps) =
     (case Write w p of
        None \<Rightarrow> None
      | Some (Inl e) \<Rightarrow> Some (Inl e)
      | Some (Inr (w', n, e)) \<Rightarrow> write_all w' ps)"


definition saver_inv :: "prefixSuffixSaver \<Rightarrow> bool" where
  "saver_inv w \<longleftrightarrow>
     0 \<le> N w \<and> len (suffix w) \<le> N w \<and> 0 \<le> suffixOff w \<and> suffixOff w \<le> len (suffix w)
     \<and> (0 < N w \<longrightarrow> suffixOff w < N w)"

section \<open>Exit status decoding (ProcessState)\<close>

text \<open>
  \<open>unix.WaitStatus\<close> is a \<open>uint32\<close> of the imported package
  \<open>golang.org/x/sys/unix\<close>. Its decoding methods are not part of this repository;
  they are written out here as that package defines them for darwin, the platform of
  the spawn primitive: the low seven bits are the terminating signal (0 for a normal
  exit, \<open>0x7F\<close> for a stop), bit 7 is the core flag and the bits from 8 up carry the
  exit code or the stop signal. A signal number is an \<open>int\<close>.
\<close>

type_synonym WaitStatus = "32 word"

definition ws_mask :: "32 word" where "ws_mask = 0x7F"
definition ws_core :: "32 word" where "ws_core = 0x80"
definition ws_shift :: nat where "ws_shift = 8"
definition ws_exited :: "32 word" where "ws_exited = 0"
definition ws_stopped :: "32 word" where "ws_stopped = 0x7F"
definition SIGSTOP :: int where "SIGSTOP = 17"
definition SIGKILL :: int where "SIGKILL = 9"

definition ws_Exited :: "WaitStatus \<Rightarrow> bool" where
  "ws_Exited w \<longleftrightarrow> w AND ws_mask = ws_exited"

definition ws_ExitStatus :: "WaitStatus \<Rightarrow> int" where
  "ws_ExitStatus w = (if w AND ws_mask \<noteq> ws_exited then - 1 else uint (drop_bit ws_shift w))"

definition ws_Signaled :: "WaitStatus \<Rightarrow> bool" where
  "ws_Signaled w \<longleftrightarrow> w AND ws_mask \<noteq> ws_stopped \<and> w AND ws_mask \<noteq> 0"

definition ws_Signal :: "WaitStatus \<Rightarrow> int" where
  "ws_Signal w =
     (let sig = w AND ws_mask in if sig = ws_stopped \<or> sig = 0 then - 1 else uint sig)"

definition ws_CoreDump :: "WaitStatus \<Rightarrow> bool" where
  "ws_CoreDump w \<longleftrightarrow> ws_Signaled w \<and> w AND ws_core \<noteq> 0"

definition ws_Stopped :: "WaitStatus \<Rightarrow> bool" where
  "ws_Stopped w \<longleftrightarrow> w AND ws_mask = ws_stopped \<and> uint (drop_bit ws_shift w) \<noteq> SIGSTOP"

definition ws_Continued :: "WaitStatus \<Rightarrow> bool" where
  "ws_Continued w \<longleftrightarrow> w AND ws_mask = ws_stopped \<and> uint (drop_bit ws_shift w) = SIGSTOP"

definition ws_StopSignal :: "WaitStatus \<Rightarrow> int" where
  "ws_StopSignal w = (if \<not> ws_Stopped w then - 1 else uint (drop_bit ws_shift w AND 0xFF))"

text \<open>The methods of \<open>ProcessState\<close>, as the repository writes them.\<close>

definition Exited :: "ProcessState \<Rightarrow> bool" where
  "Exited p = ws_Exited (status p)"

definition Success :: "ProcessState \<Rightarrow> bool" where
  "Success p \<longleftrightarrow> ws_ExitStatus (status p) = 0"

definition ExitCode :: "ProcessState \<Rightarrow> int" where
  "ExitCode p = (if \<not> ws_Exited (status p) then - 1 else ws_ExitStatus (status p))"

text \<open>
  \<open>fmt.Sprintf("%d", i)\<close>: the decimal digits of \<open>i\<close>, with a sign when negative.
\<close>

definition Sprintf_d :: "int \<Rightarrow> string" where
  "Sprintf_d i = (if i = 0 then ''0'' else if i < 0 then CHR ''-'' # itoa (- i) else itoa i)"

text \<open>
  \<open>String\<close> is called on a pointer that may be nil. The name of a signal
  (\<open>syscall.Signal.String\<close>) comes from the standard library and is the parameter
  \<open>signame\<close>.
\<close>

definition String :: "(int \<Rightarrow> string) \<Rightarrow> ProcessState option \<Rightarrow> string" where
  "String signame p =
     (case p of
        None \<Rightarrow> ''<nil>''
      | Some ps \<Rightarrow>
          (let st = status ps in
           if ws_Exited st then
             (let code = ws_ExitStatus st in
              if code = 0 then ''exit status 0'' else ''exit status '' @ Sprintf_d code)
           else if ws_Signaled st then
             (let s = signame (ws_Signal st);
                  s' = (if ws_CoreDump st then s @ '' (core dumped)'' else s)
              in ''signal: '' @ s')
           else if ws_Stopped st then ''stop signal: '' @ signame (ws_StopSignal st)
           else if ws_Continued st then ''continued''
           else ''unknown status: '' @ Sprintf_d (uint st)))"

text \<open>\<open>ExitError\<close> forwards to its embedded \<open>ProcessState\<close>.\<close>

definition ExitError_Error :: "(int \<Rightarrow> string) \<Rightarrow> err \<Rightarrow> string" where
  "ExitError_Error signame e = (case e of ExitError ps se \<Rightarrow> String signame ps | _ \<Rightarrow> [])"

definition ExitError_ExitCode :: "err \<Rightarrow> int option" where
  "ExitError_ExitCode e = (case e of ExitError (Some ps) se \<Rightarrow> Some (ExitCode ps) | _ \<Rightarrow> None)"

section \<open>Process handle (Process)\<close>

record Process =
  Pid :: int

text \<open>
  \<open>os.Signal\<close> is an interface; \<open>Signal\<close> accepts only a \<open>syscall.Signal\<close>. The two
  system calls are parameters: \<open>kill\<close> gives the error of \<open>unix.Kill\<close>, and \<open>wait4\<close>
  gives either the error of \<open>unix.Wait4\<close> or the process id, status and resource usage
  that it stored.
\<close>

datatype os_signal = SyscallSignal int | OtherSignal nat

definition Signal :: "(int \<Rightarrow> int \<Rightarrow> err option) \<Rightarrow> Process \<Rightarrow> os_signal \<Rightarrow> err option" where
  "Signal kill p sig =
     (if Pid p \<le> 0 then Some ErrInvalid
      else (case sig of
              OtherSignal _ \<Rightarrow> Some ErrInvalid
            | SyscallSignal s \<Rightarrow> kill (Pid p) s))"

definition Kill :: "(int \<Rightarrow> int \<Rightarrow> err option) \<Rightarrow> Process \<Rightarrow> err option" where
  "Kill kill p = Signal kill p (SyscallSignal SIGKILL)"

definition Release :: "Process \<Rightarrow> Process \<times> err option" where
  "Release p = (p\<lparr>Pid := - 1\<rparr>, None)"

text \<open>
  \<open>Process.Wait\<close> returns the handle as it leaves it, with the state or the error.
\<close>

definition Process_Wait ::
  "(int \<Rightarrow> err + int \<times> WaitStatus \<times> Rusage) \<Rightarrow> Process \<Rightarrow> Process \<times> (err + ProcessState)" where
  "Process_Wait wait4 p =
     (if Pid p \<le> 0 then (p, Inl ErrInvalid)
      else (case wait4 (Pid p) of
              Inl e \<Rightarrow> (p, Inl e)
            | Inr (pid', st, ru) \<Rightarrow> (p, Inr (State pid' st (Some ru)))))"

section \<open>Executable lookup (lookpath.go: LookPath)\<close>

text \<open>
  \<open>fs.FileMode\<close> is a \<open>uint32\<close> of the standard library: the low nine bits are the
  permission bits and the high bits give the type of the file. \<open>IsDir\<close> and
  \<open>IsRegular\<close> are its methods, written out with the library's constants
  (\<open>ModeDir\<close> is bit 31; \<open>ModeType\<close> collects the bits of directory, symlink, device,
  named pipe, socket, character device and irregular file).
\<close>

type_synonym FileMode = "32 word"

definition ModeDir :: FileMode where "ModeDir = 0x80000000"
definition ModeNamedPipe :: FileMode where "ModeNamedPipe = 0x02000000"
definition ModeType :: FileMode where "ModeType = 0x8F280000"

definition IsDir :: "FileMode \<Rightarrow> bool" where
  "IsDir m \<longleftrightarrow> m AND ModeDir \<noteq> 0"

definition IsRegular :: "FileMode \<Rightarrow> bool" where
  "IsRegular m \<longleftrightarrow> m AND ModeType = 0"

text \<open>
  What the package asks of the operating system and of \<open>path/filepath\<close> is a
  parameter of the model: the environment, \<open>os.Stat\<close> (the error, or the mode of the
  file), and the functions \<open>SplitList\<close>, \<open>Join\<close>, \<open>IsAbs\<close> and \<open>Base\<close>. The file
  system is a function, so the two \<open>stat\<close> calls that \<open>LookPath\<close> makes on one path
  see the same file.
\<close>

record sys =
  Getenv :: "string \<Rightarrow> string"
  Stat :: "string \<Rightarrow> err + FileMode"
  SplitList :: "string \<Rightarrow> string list"
  Join :: "string \<Rightarrow> string \<Rightarrow> string"
  IsAbs :: "string \<Rightarrow> bool"
  Base :: "string \<Rightarrow> string"

text \<open>The execute bits \<open>0111\<close> of the source are octal: \<open>0x49\<close>.\<close>

definition findExecutable :: "sys \<Rightarrow> string \<Rightarrow> err option" where
  "findExecutable s file =
     (case Stat s file of
        Inl e \<Rightarrow> Some e
      | Inr m \<Rightarrow>
          if IsDir m then Some ErrPermission
          else if m AND 0x49 \<noteq> 0 then None
          else Some ErrPermission)"

definition isExecutable :: "sys \<Rightarrow> string \<Rightarrow> bool" where
  "isExecutable s path =
     (case Stat s path of
        Inl e \<Rightarrow> False
      | Inr m \<Rightarrow> IsRegular m \<and> m AND 0x49 \<noteq> 0)"

text \<open>The loop over the entries of \<open>PATH\<close>, with the final failure after the loop.\<close>

fun LookPath_dirs :: "sys \<Rightarrow> string \<Rightarrow> string list \<Rightarrow> string \<times> err option" where
  "LookPath_dirs s file [] = ([], Some (Error file ErrNotFound))"
| "LookPath_dirs s file (d # ds) =
     (let dir = (if d = [] then ''.'' else d);
          path = Join s dir file
      in if findExecutable s path = None then
           (if \<not> IsAbs s path \<and> isExecutable s path then (path, Some (Error file ErrDot))
            else (path, None))
         else LookPath_dirs s file ds)"

definition LookPath :: "sys \<Rightarrow> string \<Rightarrow> string \<times> err option" where
  "LookPath s file =
     (if CHR ''/'' \<in> set file then
        (case findExecutable s file of
           None \<Rightarrow> (file, None)
         | Some e \<Rightarrow> ([], Some (Error file e)))
      else LookPath_dirs s file (SplitList s (Getenv s ''PATH'')))"

section \<open>The command specification (lookpath.go: Cmd, Command)\<close>

text \<open>
  An \<open>*os.File\<close> is identified with its descriptor. A stream field holds an interface
  value: an \<open>*os.File\<close>, some other reader or writer of the caller (known by its
  identity), or one of the objects that \<open>Output\<close> and \<open>CombinedOutput\<close> allocate
  themselves. A function value and a context are known by their identity as well.
\<close>

type_synonym fd = int

datatype stream = File fd | Other nat | LocalBuffer | LocalSaver

record SysProcAttr =
  Setpgid :: bool
  Setctty :: bool
  Noctty :: bool
  Ctty :: int
  Foreground :: bool
  Pgid :: int

text \<open>
  A copy task registered by the stream setup: from the caller's reader into the pipe, or
  from the pipe into the caller's writer.
\<close>

datatype copy_task = CopyIn fd | CopyOut nat fd

text \<open>The \<open>exec.Cmd\<close> that the fallback variant builds, with the fields it fills in.\<close>

record OsCmd =
  oCtx :: "nat option"
  oPath :: string
  oArgs :: "string list"
  oDir :: string
  oEnv :: "string list option"
  oStdin :: "stream option"
  oStdout :: "stream option"
  oStderr :: "stream option"
  oExtraFiles :: "fd option list"
  oSysProcAttr :: "SysProcAttr option"

record Cmd =
  Path :: string
  Args :: "string list"
  Env :: "string list option"
  Dir :: string
  Stdin :: "stream option"
  Stdout :: "stream option"
  Stderr :: "stream option"
  ExtraFiles :: "fd option list"
  SysProcAttr :: "SysProcAttr option"
  Cancel :: "nat option"
  WaitDelay :: int
  Process :: "Process option"
  ProcessState :: "ProcessState option"
  ctx :: "nat option"
  lookPathErr :: "err option"
  finished :: bool
  childIOFiles :: "fd list"
  parentIOPipes :: "fd list"
  goroutine :: "copy_task list"
  goroutineErr :: "err option list"
  stdinPipeUsed :: bool
  stdoutPipeUsed :: bool
  stderrPipeUsed :: bool
  osCmd :: "OsCmd option"

text \<open>The zero value of \<open>Cmd\<close>.\<close>

definition zeroCmd :: Cmd where
  "zeroCmd =
     \<lparr>Path = [], Args = [], Env = None, Dir = [], Stdin = None, Stdout = None, Stderr = None,
      ExtraFiles = [], SysProcAttr = None, Cancel = None, WaitDelay = 0, Process = None,
      ProcessState = None, ctx = None, lookPathErr = None, finished = False,
      childIOFiles = [], parentIOPipes = [], goroutine = [], goroutineErr = [],
      stdinPipeUsed = False, stdoutPipeUsed = False, stderrPipeUsed = False, osCmd = None\<rparr>"

definition Command :: "sys \<Rightarrow> string \<Rightarrow> string list \<Rightarrow> Cmd" where
  "Command s name arg =
     (let cmd = zeroCmd\<lparr>Path := name, Args := [name] @ arg\<rparr>
      in if Base s name = name then
           (case LookPath s name of
              (lp, Some e) \<Rightarrow> cmd\<lparr>lookPathErr := Some e\<rparr>
            | (lp, None) \<Rightarrow> cmd\<lparr>Path := lp\<rparr>)
         else cmd)"

section \<open>Start and Wait on darwin (spawn_darwin.go)\<close>

text \<open>
  The file actions and the attributes handed to \<open>posix_spawn\<close> are data. The flag
  values are those of darwin's \<open>spawn.h\<close>; \<open>O_RDONLY\<close> is 0 and \<open>O_WRONLY\<close> is 1.
\<close>

datatype file_action = AddOpen int string int | AddDup2 int int | AddChdir string

definition O_RDONLY :: int where "O_RDONLY = 0"
definition O_WRONLY :: int where "O_WRONLY = 1"

definition POSIX_SPAWN_SETPGROUP :: "16 word" where "POSIX_SPAWN_SETPGROUP = 0x0002"
definition POSIX_SPAWN_SETSIGDEF :: "16 word" where "POSIX_SPAWN_SETSIGDEF = 0x0004"
definition POSIX_SPAWN_SETSIGMASK :: "16 word" where "POSIX_SPAWN_SETSIGMASK = 0x0008"
definition POSIX_SPAWN_CLOEXEC_DEFAULT :: "16 word" where "POSIX_SPAWN_CLOEXEC_DEFAULT = 0x4000"

record spawn_attr =
  flags :: "16 word"
  pgroup :: "int option"
  sigdefault_filled :: bool
  sigmask_empty :: bool

text \<open>
  What one call of \<open>Start\<close> gets from outside: whether the context is already done
  (and with which error), the environment of the parent, the return codes of the C
  helpers, the pipes that \<open>os.Pipe\<close> creates for stream 0, 1 and 2 (read end, write
  end), and the return code and process id of \<open>posix_spawn\<close>. Closing a descriptor in the
  parent changes no field of the command and is not recorded.
\<close>

record spawn_world =
  ctx_done :: "err option"
  os_environ :: "string list"
  init_file_actions :: int
  add_action :: "file_action \<Rightarrow> int"
  os_pipe :: "nat \<Rightarrow> err + fd \<times> fd"
  has_chdir :: bool
  init_spawnattr :: int
  posix_spawn :: "string \<Rightarrow> file_action list \<Rightarrow> spawn_attr \<Rightarrow> string list \<Rightarrow> string list \<Rightarrow> int \<times> int"

definition isAbs :: "string \<Rightarrow> bool" where
  "isAbs path \<longleftrightarrow> length path > 0 \<and> path ! 0 = CHR ''/''"

definition joinPath :: "string \<Rightarrow> string \<Rightarrow> string" where
  "joinPath dir file' = (if isAbs file' then file' else dir @ ''/'' @ file')"

text \<open>
  The three stream setups return the error, or the command as they leave it, the file
  actions so far and the descriptor to close after the spawn (\<open>-1\<close> for none). The
  \<open>io.Closer\<close> that they also return is always nil.
\<close>

definition setupStdin ::
  "spawn_world \<Rightarrow> Cmd \<Rightarrow> file_action list \<Rightarrow> err + Cmd \<times> file_action list \<times> int" where
  "setupStdin w c acts =
     (case Stdin c of
        None \<Rightarrow>
          (let a = AddOpen 0 ''/dev/null'' O_RDONLY; ret = add_action w a
           in if ret \<noteq> 0 then Inl (Errno ret) else Inr (c, acts @ [a], - 1))
      | Some (File f) \<Rightarrow>
          (let a = AddDup2 f 0; ret = add_action w a
           in if ret \<noteq> 0 then Inl (Errno ret) else Inr (c, acts @ [a], - 1))
      | Some _ \<Rightarrow>
          (case os_pipe w 0 of
             Inl e \<Rightarrow> Inl e
           | Inr (pr, pw) \<Rightarrow>
               (let a = AddDup2 pr 0; ret = add_action w a
                in if ret \<noteq> 0 then Inl (Errno ret)
                   else Inr (c\<lparr>childIOFiles := childIOFiles c @ [pr],
                               goroutine := goroutine c @ [CopyIn pw]\<rparr>, acts @ [a], pr))))"

definition setupStdout ::
  "spawn_world \<Rightarrow> Cmd \<Rightarrow> file_action list \<Rightarrow> err + Cmd \<times> file_action list \<times> int" where
  "setupStdout w c acts =
     (case Stdout c of
        None \<Rightarrow>
          (let a = AddOpen 1 ''/dev/null'' O_WRONLY; ret = add_action w a
           in if ret \<noteq> 0 then Inl (Errno ret) else Inr (c, acts @ [a], - 1))
      | Some (File f) \<Rightarrow>
          (let a = AddDup2 f 1; ret = add_action w a
           in if ret \<noteq> 0 then Inl (Errno ret) else Inr (c, acts @ [a], - 1))
      | Some _ \<Rightarrow>
          (case os_pipe w 1 of
             Inl e \<Rightarrow> Inl e
           | Inr (pr, pw) \<Rightarrow>
               (let a = AddDup2 pw 1; ret = add_action w a
                in if ret \<noteq> 0 then Inl (Errno ret)
                   else Inr (c\<lparr>childIOFiles := childIOFiles c @ [pw],
                               goroutine := goroutine c @ [CopyOut 1 pr]\<rparr>, acts @ [a], pw))))"

definition setupStderr ::
  "spawn_world \<Rightarrow> Cmd \<Rightarrow> file_action list \<Rightarrow> err + Cmd \<times> file_action list \<times> int" where
  "setupStderr w c acts =
     (case Stderr c of
        None \<Rightarrow>
          (let a = AddOpen 2 ''/dev/null'' O_WRONLY; ret = add_action w a
           in if ret \<noteq> 0 then Inl (Errno ret) else Inr (c, acts @ [a], - 1))
      | Some st \<Rightarrow>
          if Stderr c = Stdout c then
            (let a = AddDup2 1 2; ret = add_action w a
             in if ret \<noteq> 0 then Inl (Errno ret) else Inr (c, acts @ [a], - 1))
          else
            (case st of
               File f \<Rightarrow>
                 (let a = AddDup2 f 2; ret = add_action w a
                  in if ret \<noteq> 0 then Inl (Errno ret) else Inr (c, acts @ [a], - 1))
             | _ \<Rightarrow>
                 (case os_pipe w 2 of
                    Inl e \<Rightarrow> Inl e
                  | Inr (pr, pw) \<Rightarrow>
                      (let a = AddDup2 pw 2; ret = add_action w a
                       in if ret \<noteq> 0 then Inl (Errno ret)
                          else Inr (c\<lparr>childIOFiles := childIOFiles c @ [pw],
                                      goroutine := goroutine c @ [CopyOut 2 pr]\<rparr>,
                                    acts @ [a], pw)))))"

text \<open>The loop over \<open>ExtraFiles\<close>: entry \<open>i\<close> goes to descriptor \<open>3 + i\<close>.\<close>

fun setupExtraFiles ::
  "spawn_world \<Rightarrow> fd option list \<Rightarrow> int \<Rightarrow> file_action list \<Rightarrow> err + file_action list" where
  "setupExtraFiles w [] i acts = Inr acts"
| "setupExtraFiles w (None # fs) i acts = setupExtraFiles w fs (i + 1) acts"
| "setupExtraFiles w (Some f # fs) i acts =
     (let a = AddDup2 f (3 + i); ret = add_action w a
      in if ret \<noteq> 0 then Inl (Errno ret) else setupExtraFiles w fs (i + 1) (acts @ [a]))"

definition setupDir :: "spawn_world \<Rightarrow> Cmd \<Rightarrow> file_action list \<Rightarrow> err + file_action list" where
  "setupDir w c acts =
     (if Dir c \<noteq> [] then
        (if \<not> has_chdir w then Inl (ErrorsNew ''exec: setting Dir requires macOS 10.15+'')
         else (let a = AddChdir (Dir c); ret = add_action w a
               in if ret \<noteq> 0 then Inl (Errno ret) else Inr (acts @ [a])))
      else Inr acts)"

definition spawnAttr :: "Cmd \<Rightarrow> spawn_attr" where
  "spawnAttr c =
     (let fl = POSIX_SPAWN_CLOEXEC_DEFAULT OR (POSIX_SPAWN_SETSIGDEF OR POSIX_SPAWN_SETSIGMASK);
          setpg = (case SysProcAttr c of None \<Rightarrow> False | Some a \<Rightarrow> Setpgid a)
      in \<lparr>flags = (if setpg then fl OR POSIX_SPAWN_SETPGROUP else fl),
          pgroup = (case SysProcAttr c of
                      None \<Rightarrow> None
                    | Some a \<Rightarrow> if Setpgid a then Some (Pgid a) else None),
          sigdefault_filled = True,
          sigmask_empty = True\<rparr>)"

definition startGoroutines :: "Cmd \<Rightarrow> Cmd" where
  "startGoroutines c = c\<lparr>goroutineErr := replicate (length (goroutine c)) None\<rparr>"

text \<open>
  \<open>Start\<close> returns the command as it leaves it together with the error. The part
  after the guards is \<open>spawn_darwin\<close>.
\<close>

definition spawn_darwin :: "spawn_world \<Rightarrow> Cmd \<Rightarrow> Cmd \<times> err option" where
  "spawn_darwin w c =
     (let path = (if Dir c \<noteq> [] \<and> \<not> isAbs (Path c) then joinPath (Dir c) (Path c) else Path c);
          env = (case Env c of None \<Rightarrow> os_environ w | Some e \<Rightarrow> e)
      in if init_file_actions w \<noteq> 0 then (c, Some (Errno (init_file_actions w)))
         else
          (case setupStdin w c [] of
             Inl e \<Rightarrow> (c, wrapError ''exec: '' (Some e))
           | Inr (c1, a1, fd0) \<Rightarrow>
          (case setupStdout w c1 a1 of
             Inl e \<Rightarrow> (c1, wrapError ''exec: '' (Some e))
           | Inr (c2, a2, fd1) \<Rightarrow>
          (case setupStderr w c2 a2 of
             Inl e \<Rightarrow> (c2, wrapError ''exec: '' (Some e))
           | Inr (c3, a3, fd2) \<Rightarrow>
          (case setupExtraFiles w (ExtraFiles c3) 0 a3 of
             Inl e \<Rightarrow> (c3, Some e)
           | Inr a4 \<Rightarrow>
          (case setupDir w c3 a4 of
             Inl e \<Rightarrow> (c3, Some e)
           | Inr a5 \<Rightarrow>
             if init_spawnattr w \<noteq> 0 then (c3, Some (Errno (init_spawnattr w)))
             else
               (let args = (if length (Args c3) = 0 then [Path c3] else Args c3);
                    (ret, pid') = posix_spawn w path a5 (spawnAttr c3) args env
                in if ret \<noteq> 0 then (c3, Some (Error (Path c3) (Errno ret)))
                   else (startGoroutines
                           (c3\<lparr>childIOFiles := [], Process := Some \<lparr>Pid = pid'\<rparr>\<rparr>),
                         None))))))))"

definition Start_darwin :: "spawn_world \<Rightarrow> Cmd \<Rightarrow> Cmd \<times> err option" where
  "Start_darwin w c =
     (if lookPathErr c \<noteq> None then (c, lookPathErr c)
      else if Process c \<noteq> None then (c, Some (ErrorsNew ''exec: already started''))
      else if finished c then (c, Some (ErrorsNew ''exec: already finished''))
      else if ctx c \<noteq> None \<and> ctx_done w \<noteq> None then (c, ctx_done w)
      else spawn_darwin w c)"

text \<open>
  A copy task stores its outcome in its slot of \<open>goroutineErr\<close> when it ends. \<open>Wait\<close>
  reads the slots as they are when it runs; \<open>first_err\<close> is its loop over them.
\<close>

fun first_err :: "err option list \<Rightarrow> err option" where
  "first_err [] = None"
| "first_err (Some e # es) = Some e"
| "first_err (None # es) = first_err es"

definition Wait_darwin ::
  "(int \<Rightarrow> err + int \<times> WaitStatus \<times> Rusage) \<Rightarrow> Cmd \<Rightarrow> Cmd \<times> err option" where
  "Wait_darwin wait4 c =
     (case Process c of
        None \<Rightarrow> (c, Some (ErrorsNew ''exec: not started''))
      | Some p \<Rightarrow>
          if finished c then (c, Some (ErrorsNew ''exec: Wait was already called''))
          else
            (let c1 = c\<lparr>finished := True\<rparr>;
                 (p', r) = Process_Wait wait4 p;
                 c2 = c1\<lparr>Process := Some p'\<rparr>
             in (case r of
                   Inl e \<Rightarrow> (c2, Some e)
                 | Inr state \<Rightarrow>
                     (let c3 = c2\<lparr>ProcessState := Some state, parentIOPipes := []\<rparr>;
                          copyErr = first_err (goroutineErr c3)
                      in if \<not> Success state then (c3, Some (ExitError (Some state) []))
                         else if copyErr \<noteq> None then (c3, copyErr)
                         else (c3, None)))))"

section \<open>Start and Wait on the other platforms (the fallback variant)\<close>

text \<open>
  The fallback hands the command to \<open>os/exec\<close>. What \<open>os/exec\<close> answers is a
  parameter: \<open>exec_start\<close> gives the error of \<open>osCmd.Start()\<close> or the process id, and
  \<open>exec_wait\<close> gives the error of \<open>osCmd.Wait()\<close> (an \<open>*exec.ExitError\<close> or any
  other error) together with the process state that \<open>os/exec\<close> stored, if any.
\<close>

datatype exec_err = ExecExitError | ExecOther err

record exec_world =
  ctx_done_f :: "err option"
  exec_start :: "OsCmd \<Rightarrow> err + int"
  exec_wait :: "OsCmd \<Rightarrow> exec_err option \<times> (int \<times> WaitStatus \<times> Rusage option) option"

definition mkOsCmd :: "Cmd \<Rightarrow> OsCmd" where
  "mkOsCmd c =
     \<lparr>oCtx = ctx c, oPath = Path c, oArgs = drop 1 (Args c), oDir = Dir c, oEnv = Env c,
      oStdin = Stdin c, oStdout = Stdout c, oStderr = Stderr c, oExtraFiles = ExtraFiles c,
      oSysProcAttr = SysProcAttr c\<rparr>"

text \<open>The slice \<open>c.Args[1:]\<close> panics when \<open>Args\<close> is empty.\<close>

definition Start_fallback :: "exec_world \<Rightarrow> Cmd \<Rightarrow> panic + Cmd \<times> err option" where
  "Start_fallback w c =
     (if lookPathErr c \<noteq> None then Inr (c, lookPathErr c)
      else if Process c \<noteq> None then Inr (c, Some (ErrorsNew ''exec: already started''))
      else if finished c then Inr (c, Some (ErrorsNew ''exec: already finished''))
      else if ctx c \<noteq> None \<and> ctx_done_f w \<noteq> None then Inr (c, ctx_done_f w)
      else if length (Args c) < 1 then Inl SliceBoundsOutOfRange
      else
        (let oc = mkOsCmd c
         in (case exec_start w oc of
               Inl e \<Rightarrow> Inr (c, Some e)
             | Inr pid' \<Rightarrow> Inr (c\<lparr>Process := Some \<lparr>Pid = pid'\<rparr>, osCmd := Some oc\<rparr>, None))))"

definition Wait_fallback :: "exec_world \<Rightarrow> Cmd \<Rightarrow> Cmd \<times> err option" where
  "Wait_fallback w c =
     (case Process c of
        None \<Rightarrow> (c, Some (ErrorsNew ''exec: not started''))
      | Some p \<Rightarrow>
          if finished c then (c, Some (ErrorsNew ''exec: Wait was already called''))
          else
            (let c1 = c\<lparr>finished := True\<rparr>
             in (case osCmd c1 of
                   None \<Rightarrow>
                     (c1, Some (ErrorsNew ''exec: internal error: osCmd is nil or wrong type''))
                 | Some oc \<Rightarrow>
                     (let (e, st) = exec_wait w oc;
                          c2 = (case st of
                                  None \<Rightarrow> c1
                                | Some (pid', ws, ru) \<Rightarrow>
                                    c1\<lparr>ProcessState := Some (State pid' ws ru)\<rparr>)
                      in (case e of
                            Some ExecExitError \<Rightarrow> (c2, Some (ExitError (ProcessState c2) []))
                          | Some (ExecOther e') \<Rightarrow> (c2, Some e')
                          | None \<Rightarrow> (c2, None))))))"

section \<open>Run, Output and CombinedOutput (lookpath.go)\<close>

text \<open>
  Between \<open>Start\<close> and \<open>Wait\<close> the copy tasks run concurrently and store their
  outcomes; \<open>outcomes\<close> gives, for each slot, what \<open>Wait\<close> finds there.
\<close>

definition record_outcomes :: "(nat \<Rightarrow> err option) \<Rightarrow> Cmd \<Rightarrow> Cmd" where
  "record_outcomes outcomes c =
     c\<lparr>goroutineErr := map outcomes [0 ..< length (goroutineErr c)]\<rparr>"

definition Run_darwin ::
  "spawn_world \<Rightarrow> (nat \<Rightarrow> err option) \<Rightarrow> (int \<Rightarrow> err + int \<times> WaitStatus \<times> Rusage)
     \<Rightarrow> Cmd \<Rightarrow> Cmd \<times> err option" where
  "Run_darwin w outcomes wait4 c =
     (case Start_darwin w c of
        (c', Some e) \<Rightarrow> (c', Some e)
      | (c', None) \<Rightarrow> Wait_darwin wait4 (record_outcomes outcomes c'))"

definition Run_fallback :: "exec_world \<Rightarrow> Cmd \<Rightarrow> panic + Cmd \<times> err option" where
  "Run_fallback w c =
     (case Start_fallback w c of
        Inl pn \<Rightarrow> Inl pn
      | Inr (c', Some e) \<Rightarrow> Inr (c', Some e)
      | Inr (c', None) \<Rightarrow> Inr (Wait_fallback w c'))"

text \<open>
  \<open>Output\<close> and \<open>CombinedOutput\<close> are written once for both variants; \<open>run\<close> is the
  variant's \<open>Run\<close>. The two objects that \<open>Output\<close> allocates are filled by the copy
  tasks while the command runs: \<open>out_bytes\<close> is what the buffer holds and \<open>capture\<close>
  is the state of the stderr capture when \<open>Output\<close> reads them. The first result is the
  returned byte slice (nil when \<open>Stdout\<close> was already set).
\<close>

record captured =
  out_bytes :: string
  capture :: prefixSuffixSaver

definition Output ::
  "(Cmd \<Rightarrow> panic + Cmd \<times> err option) \<Rightarrow> captured \<Rightarrow> Cmd
     \<Rightarrow> panic + Cmd \<times> bytes \<times> err option" where
  "Output run mem c =
     (if Stdout c \<noteq> None then Inr (c, None, Some (ErrorsNew ''exec: Stdout already set''))
      else
        (let c1 = c\<lparr>Stdout := Some LocalBuffer\<rparr>;
             captureErr = (Stderr c1 = None);
             c2 = (if captureErr then c1\<lparr>Stderr := Some LocalSaver\<rparr> else c1)
         in (case run c2 of
               Inl pn \<Rightarrow> Inl pn
             | Inr (c3, e) \<Rightarrow>
                 (case e of
                    Some (ExitError ps se) \<Rightarrow>
                      if captureErr then
                        (case Bytes (capture mem) of
                           Inl pn \<Rightarrow> Inl pn
                         | Inr b \<Rightarrow> Inr (c3, Some (out_bytes mem), Some (ExitError ps b)))
                      else Inr (c3, Some (out_bytes mem), e)
                  | _ \<Rightarrow> Inr (c3, Some (out_bytes mem), e)))))"

definition CombinedOutput ::
  "(Cmd \<Rightarrow> panic + Cmd \<times> err option) \<Rightarrow> string \<Rightarrow> Cmd
     \<Rightarrow> panic + Cmd \<times> bytes \<times> err option" where
  "CombinedOutput run buf c =
     (if Stdout c \<noteq> None then Inr (c, None, Some (ErrorsNew ''exec: Stdout already set''))
      else if Stderr c \<noteq> None then Inr (c, None, Some (ErrorsNew ''exec: Stderr already set''))
      else
        (case run (c\<lparr>Stdout := Some LocalBuffer, Stderr := Some LocalBuffer\<rparr>) of
           Inl pn \<Rightarrow> Inl pn
         | Inr (c', e) \<Rightarrow> Inr (c', Some buf, e)))"

text \<open>The capacity of the capture that \<open>Output\<close> allocates: \<open>32 << 10\<close>.\<close>

definition captureN :: int where
  "captureN = 32 * 2 ^ 10"

(*DEFS*)

section \<open>The bounded capture: its writes always return\<close>

lemma len_nonneg: "0 \<le> len b"
  by (simp add: len_def split: option.splits)

lemma len_append_go: "len (append_go dst p) = len dst + int (length p)"
  by (simp add: append_go_def len_def content_def split: option.splits)

lemma fill_facts:
  assumes "len dst \<le> n" and "fill n dst p = (d', p')"
  shows "len dst \<le> len d'" and "len d' \<le> n" and "p' \<noteq> [] \<Longrightarrow> len d' = n"
    and "length p' \<le> length p"
  using assms
  by (auto simp: fill_def Let_def min_go_def len_append_go split: if_splits)

lemma copy_at_len:
  assumes "0 \<le> off" and "off \<le> len dst"
  shows "len (fst (copy_at dst off p)) = len dst"
  using assms
  by (auto simp: copy_at_def Let_def min_go_def len_def split: option.splits)

lemma copy_at_count:
  "snd (copy_at dst off p) = min_go (len dst - off) (int (length p))"
  by (simp add: copy_at_def Let_def split: option.splits)

text \<open>
  Once the ring is full and the offset lies inside it, every round of the loop copies
  at least one byte, so the loop returns; the measure is the length of what is left.
\<close>

lemma ring_loop_total:
  assumes "0 < N w" and "len (suffix w) = N w" and "0 \<le> suffixOff w" and "suffixOff w < N w"
  shows "\<exists>w'. ring_loop w p = Some (Inr w') \<and> N w' = N w \<and> len (suffix w') = N w
              \<and> 0 \<le> suffixOff w' \<and> suffixOff w' < N w
              \<and> prefix w' = prefix w \<and> skipped w' = skipped w"
  using assms
proof (induction "length p" arbitrary: w p rule: less_induct)
  case less
  show ?case
  proof (cases "p = []")
    case True
    with less.prems show ?thesis by (simp add: ring_loop.simps)
  next
    case False
    obtain s' n where c: "copy_at (suffix w) (suffixOff w) p = (s', n)"
      by (cases "copy_at (suffix w) (suffixOff w) p")
    have n: "n = min_go (N w - suffixOff w) (int (length p))"
      using copy_at_count [of "suffix w" "suffixOff w" p] c less.prems by simp
    have npos: "0 < n" using n less.prems False by (simp add: min_go_def)
    have nle: "suffixOff w + n \<le> N w" using n by (simp add: min_go_def split: if_splits)
    have ls: "len s' = N w"
      using copy_at_len [of "suffixOff w" "suffix w" p] c less.prems by simp
    define w1 where
      "w1 = w\<lparr>suffix := s', suffixOff := (if suffixOff w + n = N w then 0 else suffixOff w + n)\<rparr>"
    have step: "ring_loop w p = ring_loop w1 (drop (nat n) p)"
      using False less.prems c by (subst ring_loop.simps) (simp add: w1_def)
    have shorter: "length (drop (nat n) p) < length p"
      using npos False by simp
    have "\<exists>w'. ring_loop w1 (drop (nat n) p) = Some (Inr w') \<and> N w' = N w1
              \<and> len (suffix w') = N w1 \<and> 0 \<le> suffixOff w' \<and> suffixOff w' < N w1
              \<and> prefix w' = prefix w1 \<and> skipped w' = skipped w1"
      using less.prems ls nle npos
      by (intro less.hyps [OF shorter]) (auto simp: w1_def)
    then show ?thesis
      unfolding step by (simp add: w1_def)
  qed
qed

lemma Write_total:
  assumes "saver_inv w"
  shows "\<exists>w'. Write w p = Some (Inr (w', int (length p), None)) \<and> saver_inv w' \<and> N w' = N w"
proof -
  obtain pre' p1 where f1: "fill (N w) (prefix w) p = (pre', p1)"
    by (cases "fill (N w) (prefix w) p")
  define overage where "overage = int (length p1) - N w"
  define p2 where "p2 = (if overage > 0 then drop (nat overage) p1 else p1)"
  define sk' where "sk' = (if overage > 0 then skipped w + overage else skipped w)"
  obtain suf' p3 where f2: "fill (N w) (suffix w) p2 = (suf', p3)"
    by (cases "fill (N w) (suffix w) p2")
  define w1 where "w1 = w\<lparr>prefix := pre', suffix := suf', skipped := sk'\<rparr>"
  have n0: "0 \<le> N w" and sl: "len (suffix w) \<le> N w"
    using assms by (simp_all add: saver_inv_def)
  have nopanic: "\<not> (overage > 0 \<and> int (length p1) < overage)"
    using n0 by (simp add: overage_def)
  have W: "Write w p = (case ring_loop w1 p3 of
                  None \<Rightarrow> None
                | Some (Inl e) \<Rightarrow> Some (Inl e)
                | Some (Inr w') \<Rightarrow> Some (Inr (w', int (length p), None)))"
    using nopanic f1 f2 unfolding p2_def sk'_def w1_def overage_def
    by (cases "int (length p1) - N w > 0") (simp_all add: Write_def Let_def)
  have p2len: "int (length p2) \<le> N w"
    using n0 by (auto simp: p2_def overage_def)
  note ff = fill_facts [OF sl f2]
  show ?thesis
  proof (cases "p3 = []")
    case True
    have "ring_loop w1 p3 = Some (Inr w1)"
      using True by (simp add: ring_loop.simps)
    moreover have "saver_inv w1"
      using assms ff(1,2) by (auto simp: saver_inv_def w1_def)
    ultimately show ?thesis using W by (simp add: w1_def)
  next
    case False
    have full: "len suf' = N w" using ff(3) False by simp
    have npos: "0 < N w"
      using False ff(4) p2len by (cases "N w = 0") (use n0 in auto)
    have "\<exists>w'. ring_loop w1 p3 = Some (Inr w') \<and> N w' = N w1 \<and> len (suffix w') = N w1
              \<and> 0 \<le> suffixOff w' \<and> suffixOff w' < N w1
              \<and> prefix w' = prefix w1 \<and> skipped w' = skipped w1"
      using assms npos full
      by (intro ring_loop_total) (auto simp: w1_def saver_inv_def)
    then obtain w' where r: "ring_loop w1 p3 = Some (Inr w')" and "N w' = N w"
       and "len (suffix w') = N w" and "0 \<le> suffixOff w'" and "suffixOff w' < N w"
      by (auto simp: w1_def)
    then have "saver_inv w'" by (simp add: saver_inv_def)
    then show ?thesis using W r \<open>N w' = N w\<close> by simp
  qed
qed

lemma newSaver_inv: "0 \<le> n \<Longrightarrow> saver_inv (newSaver n)"
  by (simp add: saver_inv_def newSaver_def len_def)

lemma write_all_total:
  "saver_inv w \<Longrightarrow> \<exists>w'. write_all w ps = Some (Inr w') \<and> saver_inv w' \<and> N w' = N w"
proof (induction ps arbitrary: w)
  case Nil
  then show ?case by simp
next
  case (Cons p ps)
  from Write_total [OF Cons.prems, of p] obtain w1 where
    w1: "Write w p = Some (Inr (w1, int (length p), None))" "saver_inv w1" "N w1 = N w"
    by blast
  from Cons.IH [OF w1(2)] w1 show ?case by auto
qed

text \<open>
  C10. For every capacity \<open>n \<ge> 0\<close>, after any sequence \<open>ps\<close> of earlier writes to a
  capture created with that capacity, a further \<open>Write\<close> of any byte slice \<open>p\<close>
  returns (it neither panics nor loops for ever), and what it returns is the full
  length of \<open>p\<close> with a nil error.
\<close>

theorem Write_never_fails:
  assumes "0 \<le> n"
  shows "\<exists>w w'. write_all (newSaver n) ps = Some (Inr w)
           \<and> Write w p = Some (Inr (w', int (length p), None))"
proof -
  from write_all_total [OF newSaver_inv [OF assms], of ps] obtain w where
    w: "write_all (newSaver n) ps = Some (Inr w)" "saver_inv w" by blast
  from Write_total [OF w(2), of p] w(1) show ?thesis by blast
qed

theorem Write_never_fails_witness:
  "(0::int) \<le> 2 \<and> (\<exists>w w'. write_all (newSaver 2) [''abc'', ''d''] = Some (Inr w)
           \<and> Write w ''efg'' = Some (Inr (w', int (length ''efg''), None)))"
  using Write_never_fails [of 2 "[''abc'', ''d'']" "''efg''"] by simp

section \<open>The bounded capture: what it counts and renders\<close>

lemmas saver_eval =
  Write_def newSaver_def fill_def len_def min_go_def append_go_def content_def
  ring_loop.simps copy_at_def

text \<open>
  C1. The claim asks for the dropped-byte counter to count every byte that is in neither
  the prefix nor the suffix, and for the rendering to show prefix, marker and suffix in
  write order. With capacity 2 and the writes \<open>ab\<close>, \<open>cd\<close>, \<open>e\<close> the byte \<open>c\<close> is
  overwritten in the ring, yet the counter stays 0, and \<open>Bytes\<close> returns \<open>abed\<close>: no
  marker, and the suffix \<open>de\<close> out of order.
\<close>

theorem saver_overwrite_not_counted:
  "write_all (newSaver 2) [''ab'', ''cd'', ''e'']
     = Some (Inr \<lparr>N = 2, prefix = Some ''ab'', suffix = Some ''ed'', suffixOff = 1, skipped = 0\<rparr>)
   \<and> Bytes \<lparr>N = 2, prefix = Some ''ab'', suffix = Some ''ed'', suffixOff = 1, skipped = 0\<rparr>
     = Inr ''abed''"
  by (simp add: saver_eval Bytes_def)

section \<open>Exit status decoding\<close>

lemmas ws_defs = ws_Exited_def ws_ExitStatus_def ws_Signaled_def ws_Signal_def ws_CoreDump_def
  ws_Stopped_def ws_Continued_def ws_StopSignal_def ws_mask_def ws_core_def ws_shift_def
  ws_exited_def ws_stopped_def

text \<open>
  C9. \<open>Success\<close> holds exactly when the process exited normally with exit code 0, and
  a status that describes termination by a signal is never successful.
\<close>

theorem Success_iff_exit_zero:
  "(Success p \<longleftrightarrow> Exited p \<and> ExitCode p = 0) \<and> (ws_Signaled (status p) \<longrightarrow> \<not> Success p)"
  by (simp add: Success_def Exited_def ExitCode_def ws_defs)

theorem Success_iff_exit_zero_witness:
  "ws_Signaled (status (State 7 9 None)) \<and> \<not> Success (State 7 9 None)
   \<and> Success (State 7 0 None)"
  using Success_iff_exit_zero [of "State 7 9 None"] Success_iff_exit_zero [of "State 7 0 None"]
  by (simp add: ws_defs Exited_def ExitCode_def)

section \<open>The process handle\<close>

lemma Release_sentinel: "Pid (fst (Release p)) = - 1"
  by (simp add: Release_def)

lemma sentinel_invalid:
  assumes "Pid p \<le> 0"
  shows "Signal kill p sig = Some ErrInvalid"
    and "Process_Wait wait4 p = (p, Inl ErrInvalid)"
  using assms by (simp_all add: Signal_def Process_Wait_def)

text \<open>
  C4. The claim wants the stored process id to become a sentinel once the process has
  been reaped through the handle's \<open>Wait\<close>. \<open>Release\<close> stores \<open>-1\<close>, but \<open>Wait\<close>
  stores nothing: after a successful reap of process 1234 the handle still holds 1234,
  and \<open>Signal\<close> on it still reaches \<open>kill\<close> instead of failing with the invalid-handle
  error.
\<close>

theorem Wait_keeps_pid:
  "fst (Process_Wait (\<lambda>p. Inr (p, 0, \<lparr>Utime = 0, Stime = 0\<rparr>)) \<lparr>Pid = 1234\<rparr>) = \<lparr>Pid = 1234\<rparr>
   \<and> snd (Process_Wait (\<lambda>p. Inr (p, 0, \<lparr>Utime = 0, Stime = 0\<rparr>)) \<lparr>Pid = 1234\<rparr>)
       = Inr (State 1234 0 (Some \<lparr>Utime = 0, Stime = 0\<rparr>))
   \<and> Signal (\<lambda>p s. None)
         (fst (Process_Wait (\<lambda>p. Inr (p, 0, \<lparr>Utime = 0, Stime = 0\<rparr>)) \<lparr>Pid = 1234\<rparr>))
         (SyscallSignal 15) = None"
  by (simp add: Process_Wait_def Signal_def)

end
